theory Spec2Isabelle
  imports Complex_Main "HOL-Library.Word"
begin

section \<open>The quadrature encoder of LiteX-CNC\<close>

text \<open>
  A shallow embedding of \<^verbatim>\<open>src/litexcnc/firmware/modules/encoder.py\<close>. The class
  \<^verbatim>\<open>EncoderModule\<close> describes a clocked circuit: every statement of its
  \<^verbatim>\<open>sync\<close> block reads the registers as they are at the start of the clock tick, the
  assignments take effect together at the end of the tick, and when two statements
  assign the same register the later one in the block wins. The embedding follows
  this: \<open>tick\<close> runs the statements in the order of the source over a record of the
  next values, and every condition and right-hand side is read from the state at
  the start of the tick.
\<close>

subsection \<open>Configuration, inputs and registers\<close>

text \<open>
  The fields of \<^verbatim>\<open>EncoderInstanceConfig\<close> that the module reads. They are Python
  integers; \<^verbatim>\<open>min_value\<close> and \<^verbatim>\<open>max_value\<close> may be \<^verbatim>\<open>None\<close>. \<open>has_Encoder_Z\<close> says whether
  the pads of the instance have an \<^verbatim>\<open>Encoder_Z\<close> line (\<^verbatim>\<open>pin_Z is not None\<close>).
\<close>

record encoder_config =
  reset_value :: int
  min_value :: "int option"
  max_value :: "int option"
  has_Encoder_Z :: bool

text \<open>The signals the module does not drive itself: the three pads and \<^verbatim>\<open>reset\<close>.\<close>

record encoder_input =
  Encoder_A :: bool
  Encoder_B :: bool
  Encoder_Z :: bool
  reset :: bool

text \<open>
  A \<^verbatim>\<open>Signal(3)\<close>: bit 0 is the newest sample. \<^verbatim>\<open>Cat(x, d[:2])\<close> puts \<open>x\<close> at bit 0 and
  moves bits 0 and 1 of \<open>d\<close> to bits 1 and 2.
\<close>

type_synonym sig3 = "bool \<times> bool \<times> bool"

definition bit0 :: "sig3 \<Rightarrow> bool" where
  "bit0 d = fst d"

definition bit1 :: "sig3 \<Rightarrow> bool" where
  "bit1 d = fst (snd d)"

definition bit2 :: "sig3 \<Rightarrow> bool" where
  "bit2 d = snd (snd d)"

definition shift_in :: "bool \<Rightarrow> sig3 \<Rightarrow> sig3" where
  "shift_in x d = (x, bit0 d, bit1 d)"

text \<open>The registers of one instance. The counter is \<^verbatim>\<open>Signal((32, True))\<close>.\<close>

record encoder_state =
  pin_A_delayed :: sig3
  pin_B_delayed :: sig3
  pin_Z_delayed :: sig3
  index_enable :: bool
  counter :: "32 word"
  index_pulse :: bool
  reset_index_pulse :: bool

text \<open>
  The state after power-up: every register at its reset value, which is 0 except for
  the counter (\<^verbatim>\<open>reset=encoder_config.reset_value\<close>).
\<close>

definition init_state :: "encoder_config \<Rightarrow> encoder_state" where
  "init_state cfg =
     \<lparr>pin_A_delayed = (False, False, False),
      pin_B_delayed = (False, False, False),
      pin_Z_delayed = (False, False, False),
      index_enable = False,
      counter = word_of_int (reset_value cfg),
      index_pulse = False,
      reset_index_pulse = False\<rparr>"

text \<open>
  Modelled from the spec: the class \<^verbatim>\<open>EncoderInstanceConfig\<close>, which declares the types of
  \<^verbatim>\<open>reset_value\<close>, \<^verbatim>\<open>min_value\<close> and \<^verbatim>\<open>max_value\<close>, is not among the sources. The data model
  of the specification gives them as signed 32-bit values, the range of the counter.
\<close>

definition is_int32 :: "int \<Rightarrow> bool" where
  "is_int32 v = (- (2 ^ 31) \<le> v \<and> v < 2 ^ 31)"

subsection \<open>The combinatorial signals\<close>

definition xor_bool :: "bool \<Rightarrow> bool \<Rightarrow> bool" where
  "xor_bool p q = (p \<noteq> q)"

text \<open>\<^verbatim>\<open>count_ena\<close> and \<^verbatim>\<open>count_dir\<close> (lines 77 to 80).\<close>

definition count_ena :: "encoder_state \<Rightarrow> bool" where
  "count_ena s =
     xor_bool (xor_bool (xor_bool (bit1 (pin_A_delayed s)) (bit2 (pin_A_delayed s)))
                        (bit1 (pin_B_delayed s)))
              (bit2 (pin_B_delayed s))"

definition count_dir :: "encoder_state \<Rightarrow> bool" where
  "count_dir s = xor_bool (bit1 (pin_A_delayed s)) (bit2 (pin_B_delayed s))"

text \<open>The rising flank of Z: \<^verbatim>\<open>pin_Z_delayed[1] & ~pin_Z_delayed[2]\<close>.\<close>

definition index_rising :: "encoder_state \<Rightarrow> bool" where
  "index_rising s = (bit1 (pin_Z_delayed s) \<and> \<not> bit2 (pin_Z_delayed s))"

subsection \<open>The counting statements\<close>

text \<open>
  \<^verbatim>\<open>create_counter_increase\<close> and \<^verbatim>\<open>create_counter_decrease\<close> return a statement. The
  statement reads the counter of the state \<open>s\<close> at the start of the tick and, when it
  assigns, overwrites the counter of the next state \<open>n\<close>; when its guard fails it
  assigns nothing and \<open>n\<close> keeps what earlier statements put there. The comparison
  of the signed counter with the Python integer is a comparison of integers.
\<close>

definition create_counter_increase ::
  "encoder_config \<Rightarrow> encoder_state \<Rightarrow> encoder_state \<Rightarrow> encoder_state" where
  "create_counter_increase cfg s n =
     (case max_value cfg of
        Some mx \<Rightarrow> if sint (counter s) < mx then n\<lparr>counter := counter s + 1\<rparr> else n
      | None \<Rightarrow> n\<lparr>counter := counter s + 1\<rparr>)"

definition create_counter_decrease ::
  "encoder_config \<Rightarrow> encoder_state \<Rightarrow> encoder_state \<Rightarrow> encoder_state" where
  "create_counter_decrease cfg s n =
     (case min_value cfg of
        Some mn \<Rightarrow> if mn < sint (counter s) then n\<lparr>counter := counter s - 1\<rparr> else n
      | None \<Rightarrow> n\<lparr>counter := counter s - 1\<rparr>)"

subsection \<open>One clock tick\<close>

text \<open>
  The \<^verbatim>\<open>sync\<close> block of \<^verbatim>\<open>__init__\<close> (lines 81 to 117), statement by statement. The
  Z pad is the constant 0 when the pads have no \<^verbatim>\<open>Encoder_Z\<close>. Assigning the Python
  integer \<^verbatim>\<open>reset_value\<close> to the 1-bit \<^verbatim>\<open>index_pulse\<close> keeps its lowest bit, which is set
  exactly when the integer is odd; assigning it to the counter keeps its low 32 bits.
\<close>

definition tick :: "encoder_config \<Rightarrow> encoder_input \<Rightarrow> encoder_state \<Rightarrow> encoder_state" where
  "tick cfg inp s =
     (let pin_Z = (has_Encoder_Z cfg \<and> Encoder_Z inp);
          n1 = s\<lparr>pin_A_delayed := shift_in (Encoder_A inp) (pin_A_delayed s),
                 pin_B_delayed := shift_in (Encoder_B inp) (pin_B_delayed s),
                 pin_Z_delayed := shift_in pin_Z (pin_Z_delayed s)\<rparr>;
          n2 = (if index_rising s then n1\<lparr>index_pulse := True\<rparr> else n1);
          n3 = (if reset_index_pulse s \<and> index_pulse s
                then n2\<lparr>index_pulse := odd (reset_value cfg), reset_index_pulse := False\<rparr>
                else n2);
          n4 = (if reset inp \<or> (index_enable s \<and> index_rising s)
                then n3\<lparr>counter := word_of_int (reset_value cfg), index_enable := False\<rparr>
                else n3);
          n5 = (if count_ena s \<and> \<not> (index_enable s \<and> index_rising s)
                then (if count_dir s
                      then create_counter_increase cfg s n4
                      else create_counter_decrease cfg s n4)
                else n4)
      in n5)"

text \<open>
  The registers \<^verbatim>\<open>index_enable\<close> and \<^verbatim>\<open>reset_index_pulse\<close> are also written from outside
  the module: \<^verbatim>\<open>create_from_config\<close> copies the host's register bits into them
  (lines 251 to 263, embedded below as \<open>soc_sync_encoder\<close>). For the module on its own
  an event is a clock tick or such a write, with any value, between two ticks.
\<close>

datatype event =
  Clock encoder_input
| Host_index_enable bool
| Host_reset_index_pulse bool

fun apply_event :: "encoder_config \<Rightarrow> event \<Rightarrow> encoder_state \<Rightarrow> encoder_state" where
  "apply_event cfg (Clock inp) s = tick cfg inp s"
| "apply_event cfg (Host_index_enable b) s = s\<lparr>index_enable := b\<rparr>"
| "apply_event cfg (Host_reset_index_pulse b) s = s\<lparr>reset_index_pulse := b\<rparr>"

text \<open>Running a list of events, oldest first.\<close>

fun run :: "encoder_config \<Rightarrow> event list \<Rightarrow> encoder_state \<Rightarrow> encoder_state" where
  "run cfg [] s = s"
| "run cfg (e # es) s = run cfg es (apply_event cfg e s)"

text \<open>The counter, read as a signed number, lies between two Python integers.\<close>

definition counter_within :: "int \<Rightarrow> int \<Rightarrow> encoder_state \<Rightarrow> bool" where
  "counter_within mn mx s = (mn \<le> sint (counter s) \<and> sint (counter s) \<le> mx)"

subsection \<open>The packed registers\<close>

text \<open>
  The size of the three flag registers: \<^verbatim>\<open>int(math.ceil(float(len(config.instances))/32))*32\<close>.
  The division is by a power of two, so the floating-point quotient is the exact
  quotient for every length a Python list can have, and the model computes it over
  the reals.
\<close>

definition csr_size :: "nat \<Rightarrow> nat" where
  "csr_size n = nat \<lceil>real n / 32\<rceil> * 32"

text \<open>The attributes that the two \<^verbatim>\<open>add_mmio\<close> methods set on the MMIO object.\<close>

datatype mmio_register =
  Encoder_index_pulse
| Encoder_counter nat
| Encoder_index_enable
| Encoder_reset_index_pulse

text \<open>
  \<^verbatim>\<open>add_mmio_read_registers\<close> and \<^verbatim>\<open>add_mmio_write_registers\<close>: the registers created,
  each with its size in bits. A configuration that Python takes as false (\<^verbatim>\<open>not config\<close>)
  is \<open>None\<close>, and then nothing is created; otherwise the argument is the list
  \<^verbatim>\<open>config.instances\<close>. With an empty list the size is 0, and creating a register of no
  bits raises \<^verbatim>\<open>ValueError\<close> (a signal has at least one bit). \<^verbatim>\<open>COUNTER_SIZE\<close> is 32.
\<close>

datatype error = ValueError

definition COUNTER_SIZE :: nat where
  "COUNTER_SIZE = 32"

definition add_mmio_read_registers ::
  "encoder_config list option \<Rightarrow> error + (mmio_register \<times> nat) list" where
  "add_mmio_read_registers config =
     (case config of
        None \<Rightarrow> Inr []
      | Some instances \<Rightarrow>
          if csr_size (length instances) = 0 then Inl ValueError
          else Inr ((Encoder_index_pulse, csr_size (length instances))
                    # map (\<lambda>index. (Encoder_counter index, COUNTER_SIZE))
                        [0..<length instances]))"

definition add_mmio_write_registers ::
  "encoder_config list option \<Rightarrow> error + (mmio_register \<times> nat) list" where
  "add_mmio_write_registers config =
     (case config of
        None \<Rightarrow> Inr []
      | Some instances \<Rightarrow>
          if csr_size (length instances) = 0 then Inl ValueError
          else Inr [(Encoder_index_enable, csr_size (length instances)),
                    (Encoder_reset_index_pulse, csr_size (length instances))])"

text \<open>The size with which a register was created, if it was.\<close>

definition register_size :: "error + (mmio_register \<times> nat) list \<Rightarrow> mmio_register \<Rightarrow> nat option" where
  "register_size created r = (case created of Inl e \<Rightarrow> None | Inr registers \<Rightarrow> map_of registers r)"

text \<open>
  The value of a register is the list of its bits, bit 0 first. Assigning a narrower
  or wider value to a register of \<open>w\<close> bits pads it with zeros or cuts it.
\<close>

definition assign_bits :: "nat \<Rightarrow> bool list \<Rightarrow> bool list" where
  "assign_bits w v = take w v @ replicate (w - length v) False"

text \<open>
  The end of \<^verbatim>\<open>create_from_config\<close>: the list \<^verbatim>\<open>index_pulse\<close> holds, for each instance in
  order, its \<^verbatim>\<open>index_pulse\<close> signal, or \<^verbatim>\<open>Constant(0)\<close> when it has no Z pin, and
  \<^verbatim>\<open>Cat(index_pulse)\<close> is assigned to the status of \<^verbatim>\<open>encoder_index_pulse\<close>.
\<close>

definition index_pulse_list :: "encoder_config list \<Rightarrow> encoder_state list \<Rightarrow> bool list" where
  "index_pulse_list instances encoders =
     map (\<lambda>(instance_config, encoder).
            if has_Encoder_Z instance_config then index_pulse encoder else False)
         (zip instances encoders)"

definition encoder_index_pulse_status ::
  "encoder_config list \<Rightarrow> encoder_state list \<Rightarrow> bool list" where
  "encoder_index_pulse_status instances encoders =
     assign_bits (csr_size (length instances)) (index_pulse_list instances encoders)"

subsection \<open>The encoders in the SoC\<close>

text \<open>
  The statements of the module's \<^verbatim>\<open>sync\<close> block once more, now writing onto a record
  \<open>n\<close> of next values that other statements have already written to. They read the
  state \<open>s\<close> at the start of the tick, as in \<open>tick\<close>, which is the case \<open>n = s\<close>.
\<close>

definition module_sync ::
  "encoder_config \<Rightarrow> encoder_input \<Rightarrow> encoder_state \<Rightarrow> encoder_state \<Rightarrow> encoder_state" where
  "module_sync cfg inp s n =
     (let pin_Z = (has_Encoder_Z cfg \<and> Encoder_Z inp);
          n1 = n\<lparr>pin_A_delayed := shift_in (Encoder_A inp) (pin_A_delayed s),
                 pin_B_delayed := shift_in (Encoder_B inp) (pin_B_delayed s),
                 pin_Z_delayed := shift_in pin_Z (pin_Z_delayed s)\<rparr>;
          n2 = (if index_rising s then n1\<lparr>index_pulse := True\<rparr> else n1);
          n3 = (if reset_index_pulse s \<and> index_pulse s
                then n2\<lparr>index_pulse := odd (reset_value cfg), reset_index_pulse := False\<rparr>
                else n2);
          n4 = (if reset inp \<or> (index_enable s \<and> index_rising s)
                then n3\<lparr>counter := word_of_int (reset_value cfg), index_enable := False\<rparr>
                else n3);
          n5 = (if count_ena s \<and> \<not> (index_enable s \<and> index_rising s)
                then (if count_dir s
                      then create_counter_increase cfg s n4
                      else create_counter_decrease cfg s n4)
                else n4)
      in n5)"

text \<open>
  The host's registers as the circuit reads them: the storage of \<^verbatim>\<open>MMIO_inst.reset\<close>,
  of \<^verbatim>\<open>encoder_index_enable\<close> and of \<^verbatim>\<open>encoder_reset_index_pulse\<close>, the two last as lists of
  bits, bit 0 first. No statement of the sources assigns to them: they are inputs
  of every tick.
\<close>

record mmio_storage =
  reset_storage :: bool
  encoder_index_enable_storage :: "bool list"
  encoder_reset_index_pulse_storage :: "bool list"

text \<open>
  One encoder in the SoC: the registers of the module, its \<^verbatim>\<open>reset\<close> signal, which
  \<^verbatim>\<open>create_from_config\<close> turns into a register, and the status register
  \<^verbatim>\<open>encoder_<index>_counter\<close>.
\<close>

record soc_encoder =
  encoder :: encoder_state
  encoder_reset :: bool
  counter_status :: "32 word"

text \<open>
  One tick of the encoder with number \<open>index\<close> (\<^verbatim>\<open>create_from_config\<close>, lines 251 to 265).
  The statements added to \<^verbatim>\<open>soc.sync\<close> copy the reset storage into \<^verbatim>\<open>encoder.reset\<close>,
  bit \<open>index\<close> of the two flag storages into \<^verbatim>\<open>encoder.index_enable\<close> and
  \<^verbatim>\<open>encoder.reset_index_pulse\<close>, and the counter into its status register. The
  statements of the submodule come after those of the SoC, so where the module
  assigns one of the two flags, its assignment wins. The module reads its
  \<^verbatim>\<open>reset\<close> register; the \<open>reset\<close> field of the pads record is not used.
\<close>

definition soc_sync_encoder ::
  "mmio_storage \<Rightarrow> nat \<Rightarrow> encoder_config \<Rightarrow> encoder_input \<Rightarrow> soc_encoder \<Rightarrow> soc_encoder" where
  "soc_sync_encoder mmio index instance_config pads_in e =
     (let s = encoder e;
          inp = pads_in\<lparr>reset := encoder_reset e\<rparr>;
          n = s\<lparr>index_enable := encoder_index_enable_storage mmio ! index,
                reset_index_pulse := encoder_reset_index_pulse_storage mmio ! index\<rparr>
      in \<lparr>encoder = module_sync instance_config inp s n,
          encoder_reset = reset_storage mmio,
          counter_status = counter s\<rparr>)"

text \<open>
  One tick of all encoders: the loop over \<^verbatim>\<open>enumerate(config.instances)\<close> gives each
  instance its position in the list as \<open>index\<close>.
\<close>

definition soc_sync ::
  "mmio_storage \<Rightarrow> encoder_config list \<Rightarrow> encoder_input list \<Rightarrow> soc_encoder list
     \<Rightarrow> soc_encoder list" where
  "soc_sync mmio instances pads_ins encoders =
     map (\<lambda>(index, instance_config, pads_in, e).
            soc_sync_encoder mmio index instance_config pads_in e)
         (zip [0..<length instances] (zip instances (zip pads_ins encoders)))"

subsection \<open>Configurations and inputs of the examples\<close>

definition plain_config :: "int \<Rightarrow> encoder_config" where
  "plain_config rv = \<lparr>reset_value = rv, min_value = None, max_value = None, has_Encoder_Z = True\<rparr>"

definition pads :: "bool \<Rightarrow> bool \<Rightarrow> bool \<Rightarrow> encoder_input" where
  "pads a b z = \<lparr>Encoder_A = a, Encoder_B = b, Encoder_Z = z, reset = False\<rparr>"

definition pads_reset :: "bool \<Rightarrow> bool \<Rightarrow> bool \<Rightarrow> encoder_input" where
  "pads_reset a b z = \<lparr>Encoder_A = a, Encoder_B = b, Encoder_Z = z, reset = True\<rparr>"

text \<open>A configuration with both bounds, and one with only the upper bound.\<close>

definition bounded_config :: encoder_config where
  "bounded_config =
     \<lparr>reset_value = 0, min_value = Some (- 5), max_value = Some 10, has_Encoder_Z = True\<rparr>"

definition max10_config :: encoder_config where
  "max10_config =
     \<lparr>reset_value = 0, min_value = None, max_value = Some 10, has_Encoder_Z = True\<rparr>"

text \<open>A state with the given A, B and Z histories and counter, and every flag clear.\<close>

definition example_state :: "sig3 \<Rightarrow> sig3 \<Rightarrow> sig3 \<Rightarrow> 32 word \<Rightarrow> encoder_state" where
  "example_state a b z c =
     \<lparr>pin_A_delayed = a, pin_B_delayed = b, pin_Z_delayed = z,
      index_enable = False, counter = c, index_pulse = False, reset_index_pulse = False\<rparr>"

text \<open>
  One turn of the quadrature cycle in the counting-up direction, one step per tick,
  starting from A = B = 0: A rises, B rises, A falls, B falls.
\<close>

definition forward_cycle :: "event list" where
  "forward_cycle =
     [Clock (pads True False False), Clock (pads True True False),
      Clock (pads False True False), Clock (pads False False False)]"

text \<open>
  Twelve forward edges, then two ticks with the lines held, which the two
  synchronizer stages need to bring the last two edges to the counter.
\<close>

definition twelve_forward_edges :: "event list" where
  "twelve_forward_edges =
     forward_cycle @ forward_cycle @ forward_cycle
     @ [Clock (pads False False False), Clock (pads False False False)]"

text \<open>
  Line A rises and is held: after these two ticks the rise stands between bits 1 and
  2 of the A history, so the next tick sees a count edge, in the counting-up direction.
\<close>

definition a_rises :: "event list" where
  "a_rises = [Clock (pads True False False), Clock (pads True False False)]"

text \<open>Lines A and B rise on the same tick and are held.\<close>

definition both_rise :: "event list" where
  "both_rise = [Clock (pads True True False), Clock (pads True True False)]"

text \<open>
  Line Z rises and is held for three ticks: the third tick sees the rising flank and
  sets \<open>index_pulse\<close>; after it the Z history is all ones.
\<close>

definition z_rises :: "event list" where
  "z_rises = [Clock (pads False False True), Clock (pads False False True),
              Clock (pads False False True)]"

text \<open>
  After the first index pulse, Z falls for one tick and rises again; two ticks later
  the new rising flank stands in the Z history, and the host asks for the
  acknowledgement of the first pulse.
\<close>

definition second_z_edge :: "event list" where
  "second_z_edge =
     z_rises @ [Clock (pads False False False), Clock (pads False False True),
                Clock (pads False False True), Host_reset_index_pulse True]"

text \<open>An encoder of the SoC at power-up: every register at its reset value.\<close>

definition soc_init :: "encoder_config \<Rightarrow> soc_encoder" where
  "soc_init cfg = \<lparr>encoder = init_state cfg, encoder_reset = False, counter_status = 0\<rparr>"

text \<open>
  Host registers of 64 bits, as created for 40 instances: every bit of
  \<^verbatim>\<open>encoder_index_enable\<close> is set, also the bits from 40 upward, and the other two
  registers are clear.
\<close>

definition all_enabled :: mmio_storage where
  "all_enabled =
     \<lparr>reset_storage = False,
      encoder_index_enable_storage = replicate 64 True,
      encoder_reset_index_pulse_storage = replicate 64 False\<rparr>"

text \<open>The same registers with the bits of \<^verbatim>\<open>encoder_index_enable\<close> from 40 upward clear.\<close>

definition forty_enabled :: mmio_storage where
  "forty_enabled =
     \<lparr>reset_storage = False,
      encoder_index_enable_storage = replicate 40 True @ replicate 24 False,
      encoder_reset_index_pulse_storage = replicate 64 False\<rparr>"

text \<open>The encoders of a configuration, each after its own sequence of events from power-up.\<close>

definition encoders_after :: "encoder_config list \<Rightarrow> event list list \<Rightarrow> encoder_state list" where
  "encoders_after instances ess =
     map (\<lambda>(instance_config, es). run instance_config es (init_state instance_config))
         (zip instances ess)"

section \<open>Helper facts\<close>

lemma sint_word_of_int32:
  "is_int32 v \<Longrightarrow> sint (word_of_int v :: 32 word) = v"
  unfolding is_int32_def
  by (simp add: sint_sbintrunc' signed_take_bit_int_eq_self)

lemmas signal_defs = bit0_def bit1_def bit2_def shift_in_def xor_bool_def
  count_ena_def count_dir_def index_rising_def

lemmas tick_defs = tick_def Let_def create_counter_increase_def create_counter_decrease_def

lemmas example_defs = plain_config_def pads_def pads_reset_def init_state_def example_state_def

lemma sint_plus1:
  assumes "sint (c :: 32 word) < mx" and "is_int32 mx"
  shows "sint (c + 1) = sint c + 1"
proof -
  have lo: "- (2 ^ 31) \<le> sint c" using sint_ge [of c] by simp
  have "sint (c + 1) = signed_take_bit 31 (sint c + 1)"
    by (simp add: sint_word_ariths)
  also have "\<dots> = sint c + 1"
    using assms lo by (intro signed_take_bit_int_eq_self) (simp_all add: is_int32_def)
  finally show ?thesis .
qed

lemma sint_minus1:
  assumes "mn < sint (c :: 32 word)" and "is_int32 mn"
  shows "sint (c - 1) = sint c - 1"
proof -
  have hi: "sint c < 2 ^ 31" using sint_lt [of c] by simp
  have "sint (c - 1) = signed_take_bit 31 (sint c - 1)"
    by (simp add: sint_word_ariths)
  also have "\<dots> = sint c - 1"
    using assms hi by (intro signed_take_bit_int_eq_self) (simp_all add: is_int32_def)
  finally show ?thesis .
qed

lemma counter_tick_cases:
  "counter (tick cfg inp s) = counter s
   \<or> counter (tick cfg inp s) = word_of_int (reset_value cfg)
   \<or> (\<exists>mx. max_value cfg = Some mx \<and> sint (counter s) < mx \<and> counter (tick cfg inp s) = counter s + 1)
   \<or> (max_value cfg = None \<and> counter (tick cfg inp s) = counter s + 1)
   \<or> (\<exists>mn. min_value cfg = Some mn \<and> mn < sint (counter s) \<and> counter (tick cfg inp s) = counter s - 1)
   \<or> (min_value cfg = None \<and> counter (tick cfg inp s) = counter s - 1)"
  by (auto simp: tick_defs split: option.splits)

lemma tick_counter_within:
  assumes cfg: "min_value cfg = Some mn" "max_value cfg = Some mx"
    and rng: "is_int32 mn" "is_int32 mx"
    and rv: "mn \<le> reset_value cfg" "reset_value cfg \<le> mx"
    and inv: "counter_within mn mx s"
  shows "counter_within mn mx (tick cfg inp s)"
proof -
  have rv32: "is_int32 (reset_value cfg)"
    using rng rv by (simp add: is_int32_def)
  consider (same) "counter (tick cfg inp s) = counter s"
    | (rst) "counter (tick cfg inp s) = word_of_int (reset_value cfg)"
    | (up) "sint (counter s) < mx" "counter (tick cfg inp s) = counter s + 1"
    | (down) "mn < sint (counter s)" "counter (tick cfg inp s) = counter s - 1"
    using counter_tick_cases [of cfg inp s] cfg by auto
  then show ?thesis
  proof cases
    case same
    then show ?thesis using inv by (simp add: counter_within_def)
  next
    case rst
    then show ?thesis using rv rv32 by (simp add: counter_within_def sint_word_of_int32)
  next
    case up
    then show ?thesis using inv rng sint_plus1 [of "counter s" mx]
      by (simp add: counter_within_def)
  next
    case down
    then show ?thesis using inv rng sint_minus1 [of mn "counter s"]
      by (simp add: counter_within_def)
  qed
qed

lemma run_counter_within:
  assumes cfg: "min_value cfg = Some mn" "max_value cfg = Some mx"
    and rng: "is_int32 mn" "is_int32 mx"
    and rv: "mn \<le> reset_value cfg" "reset_value cfg \<le> mx"
  shows "counter_within mn mx s \<Longrightarrow> counter_within mn mx (run cfg es s)"
proof (induction es arbitrary: s)
  case Nil
  then show ?case by simp
next
  case (Cons e es)
  have "counter_within mn mx (apply_event cfg e s)"
  proof (cases e)
    case (Clock inp)
    then show ?thesis using tick_counter_within [OF cfg rng rv Cons.prems] by simp
  next
    case (Host_index_enable b)
    then show ?thesis using Cons.prems by (simp add: counter_within_def)
  next
    case (Host_reset_index_pulse b)
    then show ?thesis using Cons.prems by (simp add: counter_within_def)
  qed
  then show ?case using Cons.IH by simp
qed

lemma init_counter_within:
  assumes "is_int32 mn" "is_int32 mx" "mn \<le> reset_value cfg" "reset_value cfg \<le> mx"
  shows "counter_within mn mx (init_state cfg)"
proof -
  have "is_int32 (reset_value cfg)" using assms by (simp add: is_int32_def)
  then show ?thesis using assms by (simp add: counter_within_def init_state_def sint_word_of_int32)
qed

lemma clamp_at_max:
  assumes "max_value cfg = Some mx" "count_ena s" "count_dir s" "sint (counter s) = mx"
    "\<not> reset inp" "\<not> (index_enable s \<and> index_rising s)"
  shows "counter (tick cfg inp s) = counter s"
  using assms by (auto simp: tick_defs)

lemma clamp_at_min:
  assumes "min_value cfg = Some mn" "count_ena s" "\<not> count_dir s" "sint (counter s) = mn"
    "\<not> reset inp" "\<not> (index_enable s \<and> index_rising s)"
  shows "counter (tick cfg inp s) = counter s"
  using assms by (auto simp: tick_defs)


text \<open>
  The acknowledgement does clear the pulse when \<open>reset_value\<close> is even, and a clear
  pulse stays clear on every tick without a rising flank of Z.
\<close>

lemma acknowledgement_clears_when_even:
  "even (reset_value cfg) \<Longrightarrow> reset_index_pulse s \<Longrightarrow> index_pulse s \<Longrightarrow>
     \<not> index_pulse (tick cfg inp s)"
  by (auto simp: tick_defs split: option.splits)

lemma clear_pulse_stays_clear:
  "\<not> index_pulse s \<Longrightarrow> \<not> index_rising s \<Longrightarrow> \<not> index_pulse (tick cfg inp s)"
  by (auto simp: tick_defs split: option.splits)

text \<open>
  When neither of two ticks sees a count edge, a second tick with reset and a second
  tick without it end in the same state.
\<close>

lemma reset_twice_same_without_edges:
  assumes "\<not> count_ena s" and "\<not> count_ena (tick cfg (inp1\<lparr>reset := True\<rparr>) s)"
  shows "tick cfg (inp2\<lparr>reset := True\<rparr>) (tick cfg (inp1\<lparr>reset := True\<rparr>) s)
         = tick cfg (inp2\<lparr>reset := False\<rparr>) (tick cfg (inp1\<lparr>reset := True\<rparr>) s)"
proof -
  let ?s1 = "tick cfg (inp1\<lparr>reset := True\<rparr>) s"
  have c: "counter ?s1 = word_of_int (reset_value cfg)" and e: "\<not> index_enable ?s1"
    using assms(1) by (simp_all add: tick_defs)
  show ?thesis
    using assms(2) c e by (simp add: tick_def [of cfg _ ?s1] Let_def)
qed

text \<open>
  The register size in closed form, the bits of an assigned register, and the index
  pulse of an encoder without a Z pin, which is never set.
\<close>

lemma csr_size_eq: "csr_size n = (n + 31) div 32 * 32"
proof -
  have "nat \<lceil>real n / 32\<rceil> = (n + 31) div 32" by linarith
  then show ?thesis by (simp add: csr_size_def)
qed

lemma csr_size_bounds: "n \<le> csr_size n \<and> csr_size n < n + 32 \<and> 32 dvd csr_size n"
proof -
  have "n \<le> (n + 31) div 32 * 32" by presburger
  moreover have "(n + 31) div 32 * 32 < n + 32" by presburger
  moreover have "(32::nat) dvd (n + 31) div 32 * 32" by simp
  ultimately show ?thesis by (simp add: csr_size_eq)
qed

lemma length_assign_bits: "length (assign_bits w v) = w"
  by (simp add: assign_bits_def)

lemma nth_assign_bits_low:
  "i < length v \<Longrightarrow> i < w \<Longrightarrow> assign_bits w v ! i = v ! i"
  by (simp add: assign_bits_def nth_append)

lemma nth_assign_bits_high:
  "length v \<le> i \<Longrightarrow> i < w \<Longrightarrow> \<not> assign_bits w v ! i"
  by (simp add: assign_bits_def nth_append)

lemma tick_without_Z:
  "\<not> has_Encoder_Z cfg \<Longrightarrow> pin_Z_delayed s = (False, False, False) \<Longrightarrow> \<not> index_pulse s \<Longrightarrow>
     pin_Z_delayed (tick cfg inp s) = (False, False, False) \<and> \<not> index_pulse (tick cfg inp s)"
  by (auto simp: tick_defs signal_defs split: option.splits)

lemma run_without_Z:
  "\<not> has_Encoder_Z cfg \<Longrightarrow> pin_Z_delayed s = (False, False, False) \<Longrightarrow> \<not> index_pulse s \<Longrightarrow>
     pin_Z_delayed (run cfg es s) = (False, False, False) \<and> \<not> index_pulse (run cfg es s)"
proof (induction es arbitrary: s)
  case Nil
  then show ?case by simp
next
  case (Cons e es)
  have "pin_Z_delayed (apply_event cfg e s) = (False, False, False)
        \<and> \<not> index_pulse (apply_event cfg e s)"
    using Cons.prems tick_without_Z [of cfg s] by (cases e) simp_all
  then show ?case using Cons.IH [of "apply_event cfg e s"] Cons.prems(1) by simp
qed

lemma no_Z_no_pulse:
  "\<not> has_Encoder_Z cfg \<Longrightarrow> \<not> index_pulse (run cfg es (init_state cfg))"
  using run_without_Z [of cfg "init_state cfg" es] by (simp add: init_state_def)

lemma nth_index_pulse_list:
  assumes "i < length instances" "length ess = length instances"
  shows "index_pulse_list instances (encoders_after instances ess) ! i
         = index_pulse (encoders_after instances ess ! i)"
  using assms no_Z_no_pulse [of "instances ! i" "ess ! i"]
  by (auto simp: index_pulse_list_def encoders_after_def)

lemma length_index_pulse_list:
  "length ess = length instances \<Longrightarrow>
     length (index_pulse_list instances (encoders_after instances ess)) = length instances"
  by (simp add: index_pulse_list_def encoders_after_def)

text \<open>
  The encoders in the SoC: the module's statements over the state itself are \<open>tick\<close>;
  the two flags after a tick; the encoder at position \<open>i\<close> is driven by bit \<open>i\<close> of the
  host's registers, and by no bit from the number of instances upward; the sizes of
  the registers created for a configuration with at least one instance.
\<close>

lemma tick_module_sync: "tick cfg inp s = module_sync cfg inp s s"
  by (simp add: tick_def module_sync_def)

text \<open>
  A tick of an encoder in the SoC is a tick of the module followed by writes of the
  two flags: what holds after every sequence of events holds in the SoC.
\<close>

lemma soc_sync_encoder_events:
  "encoder (soc_sync_encoder mmio index cfg pads_in e) =
     run cfg
       [Clock (pads_in\<lparr>reset := encoder_reset e\<rparr>),
        Host_index_enable (index_enable (encoder (soc_sync_encoder mmio index cfg pads_in e))),
        Host_reset_index_pulse
          (reset_index_pulse (encoder (soc_sync_encoder mmio index cfg pads_in e)))]
       (encoder e)"
  by (rule encoder_state.equality)
    (auto simp: soc_sync_encoder_def module_sync_def tick_def Let_def
      create_counter_increase_def create_counter_decrease_def split: option.splits)

lemma module_sync_flags:
  "index_enable (module_sync cfg inp s n)
     = (index_enable n \<and> \<not> (reset inp \<or> (index_enable s \<and> index_rising s)))
   \<and> reset_index_pulse (module_sync cfg inp s n)
     = (reset_index_pulse n \<and> \<not> (reset_index_pulse s \<and> index_pulse s))"
  by (auto simp: module_sync_def Let_def create_counter_increase_def create_counter_decrease_def
      split: option.splits)

lemma soc_sync_encoder_flags:
  "index_enable (encoder (soc_sync_encoder mmio index cfg pads_in e))
     = (encoder_index_enable_storage mmio ! index
        \<and> \<not> (encoder_reset e \<or> (index_enable (encoder e) \<and> index_rising (encoder e))))
   \<and> reset_index_pulse (encoder (soc_sync_encoder mmio index cfg pads_in e))
     = (encoder_reset_index_pulse_storage mmio ! index
        \<and> \<not> (reset_index_pulse (encoder e) \<and> index_pulse (encoder e)))"
  by (simp add: soc_sync_encoder_def Let_def module_sync_flags)

lemma nth_soc_sync:
  assumes "i < length instances" "length pads_ins = length instances"
    "length encoders = length instances"
  shows "soc_sync mmio instances pads_ins encoders ! i
         = soc_sync_encoder mmio i (instances ! i) (pads_ins ! i) (encoders ! i)"
  using assms by (simp add: soc_sync_def)

lemma length_soc_sync:
  assumes "length pads_ins = length instances" "length encoders = length instances"
  shows "length (soc_sync mmio instances pads_ins encoders) = length instances"
  using assms by (simp add: soc_sync_def)

lemma soc_sync_encoder_cong:
  assumes "reset_storage mmio2 = reset_storage mmio"
    "encoder_index_enable_storage mmio2 ! index = encoder_index_enable_storage mmio ! index"
    "encoder_reset_index_pulse_storage mmio2 ! index
       = encoder_reset_index_pulse_storage mmio ! index"
  shows "soc_sync_encoder mmio2 index cfg pads_in e = soc_sync_encoder mmio index cfg pads_in e"
  using assms by (simp add: soc_sync_encoder_def)

lemma nth_of_take_eq:
  assumes "take n xs = take n ys" "i < n"
  shows "xs ! i = ys ! i"
proof -
  have "xs ! i = take n xs ! i" using assms(2) by simp
  also have "\<dots> = take n ys ! i" using assms(1) by simp
  also have "\<dots> = ys ! i" using assms(2) by simp
  finally show ?thesis .
qed

lemma soc_sync_low_bits:
  assumes len: "length pads_ins = length instances" "length encoders = length instances"
    and r: "reset_storage mmio2 = reset_storage mmio"
    and ie: "take (length instances) (encoder_index_enable_storage mmio2)
             = take (length instances) (encoder_index_enable_storage mmio)"
    and rip: "take (length instances) (encoder_reset_index_pulse_storage mmio2)
             = take (length instances) (encoder_reset_index_pulse_storage mmio)"
  shows "soc_sync mmio2 instances pads_ins encoders = soc_sync mmio instances pads_ins encoders"
proof (rule nth_equalityI)
  show "length (soc_sync mmio2 instances pads_ins encoders)
        = length (soc_sync mmio instances pads_ins encoders)"
    using len by (simp add: length_soc_sync)
next
  fix i
  assume "i < length (soc_sync mmio2 instances pads_ins encoders)"
  then have i: "i < length instances" using len by (simp add: length_soc_sync)
  have "soc_sync_encoder mmio2 i (instances ! i) (pads_ins ! i) (encoders ! i)
        = soc_sync_encoder mmio i (instances ! i) (pads_ins ! i) (encoders ! i)"
    using r nth_of_take_eq [OF ie i] nth_of_take_eq [OF rip i] by (rule soc_sync_encoder_cong)
  then show "soc_sync mmio2 instances pads_ins encoders ! i
             = soc_sync mmio instances pads_ins encoders ! i"
    using i len by (simp add: nth_soc_sync)
qed

lemma csr_size_pos: "instances \<noteq> [] \<Longrightarrow> csr_size (length instances) \<noteq> 0"
proof -
  assume "instances \<noteq> []"
  then have "0 < length instances" by simp
  moreover have "length instances \<le> csr_size (length instances)"
    using csr_size_bounds by blast
  ultimately show ?thesis by linarith
qed

lemma register_size_write:
  "instances \<noteq> [] \<Longrightarrow>
     register_size (add_mmio_write_registers (Some instances)) Encoder_index_enable
       = Some (csr_size (length instances))
     \<and> register_size (add_mmio_write_registers (Some instances)) Encoder_reset_index_pulse
       = Some (csr_size (length instances))"
  using csr_size_pos [of instances]
  by (simp add: register_size_def add_mmio_write_registers_def)

lemma register_size_read:
  "instances \<noteq> [] \<Longrightarrow>
     register_size (add_mmio_read_registers (Some instances)) Encoder_index_pulse
       = Some (csr_size (length instances))"
  using csr_size_pos [of instances]
  by (simp add: register_size_def add_mmio_read_registers_def)

lemma nth_status_any:
  assumes "i < length instances" "length encoders = length instances"
  shows "encoder_index_pulse_status instances encoders ! i
         = (has_Encoder_Z (instances ! i) \<and> index_pulse (encoders ! i))"
proof -
  have "i < csr_size (length instances)" using assms(1) csr_size_bounds [of "length instances"] by simp
  then show ?thesis using assms
    by (simp add: encoder_index_pulse_status_def nth_assign_bits_low index_pulse_list_def)
qed

section \<open>Index-triggered reset\<close>

text \<open>
  Claim C7. On a tick at whose start \<open>index_enable\<close> is set and the Z history shows a
  rising flank, the counter at the end of the tick holds \<open>reset_value\<close> (as a 32-bit
  value; read as a signed number it is \<open>reset_value\<close> itself whenever that is a signed
  32-bit integer) and \<open>index_enable\<close> is cleared, whatever the A/B histories are: a
  count event on the same tick is suppressed. This holds with and without the
  global reset.
\<close>

theorem index_enable_reset:
  "index_enable s \<and> index_rising s \<longrightarrow>
     counter (tick cfg inp s) = word_of_int (reset_value cfg)
     \<and> \<not> index_enable (tick cfg inp s)
     \<and> (is_int32 (reset_value cfg) \<longrightarrow> sint (counter (tick cfg inp s)) = reset_value cfg)"
  by (auto simp: tick_def Let_def sint_word_of_int32)

text \<open>
  The example of the claim: \<open>index_enable\<close> set, \<open>reset_value = 5\<close>, the counter at 33, a
  rising flank of Z and, on the same tick, a count edge on A. The global reset is
  not asserted.
\<close>

theorem index_enable_reset_witness:
  "index_enable ((example_state (False, True, False) (False, False, False) (False, True, False) 33)
                   \<lparr>index_enable := True\<rparr>)
   \<and> index_rising ((example_state (False, True, False) (False, False, False) (False, True, False) 33)
                   \<lparr>index_enable := True\<rparr>)
   \<and> count_ena ((example_state (False, True, False) (False, False, False) (False, True, False) 33)
                   \<lparr>index_enable := True\<rparr>)
   \<and> is_int32 (reset_value (plain_config 5))
   \<and> counter (tick (plain_config 5) (pads False False False)
        ((example_state (False, True, False) (False, False, False) (False, True, False) 33)
           \<lparr>index_enable := True\<rparr>)) = 5
   \<and> sint (counter (tick (plain_config 5) (pads False False False)
        ((example_state (False, True, False) (False, False, False) (False, True, False) 33)
           \<lparr>index_enable := True\<rparr>))) = 5
   \<and> \<not> index_enable (tick (plain_config 5) (pads False False False)
        ((example_state (False, True, False) (False, False, False) (False, True, False) 33)
           \<lparr>index_enable := True\<rparr>))"
  using index_enable_reset
    [of "(example_state (False, True, False) (False, False, False) (False, True, False) 33)
           \<lparr>index_enable := True\<rparr>" "plain_config 5" "pads False False False"]
  by (simp add: example_defs signal_defs is_int32_def)

section \<open>Bounded counting\<close>

text \<open>
  Claim C5. Take a configuration with both \<open>min_value\<close> and \<open>max_value\<close> set, both signed
  32-bit integers, and \<open>min_value \<le> reset_value \<le> max_value\<close>. Then after any sequence of
  clock ticks and host writes from power-up the counter lies in
  \<open>[min_value, max_value]\<close>; a count-up edge at \<open>max_value\<close> and a count-down edge at
  \<open>min_value\<close> leave the counter as it is. With \<open>reset_value = 0\<close> and \<open>max_value = 10\<close>,
  twelve forward count edges end with the counter at 10; the same edges count to 12
  when no bound is set.
\<close>

theorem counter_bounds:
  "(min_value cfg = Some mn \<and> max_value cfg = Some mx \<and> is_int32 mn \<and> is_int32 mx
      \<and> mn \<le> reset_value cfg \<and> reset_value cfg \<le> mx \<longrightarrow>
        counter_within mn mx (run cfg es (init_state cfg))
      \<and> (count_ena s1 \<and> count_dir s1 \<and> sint (counter s1) = mx \<and> \<not> reset inp
           \<and> \<not> (index_enable s1 \<and> index_rising s1) \<longrightarrow>
             counter (tick cfg inp s1) = counter s1)
      \<and> (count_ena s2 \<and> \<not> count_dir s2 \<and> sint (counter s2) = mn \<and> \<not> reset inp
           \<and> \<not> (index_enable s2 \<and> index_rising s2) \<longrightarrow>
             counter (tick cfg inp s2) = counter s2))
   \<and> counter (run max10_config twelve_forward_edges (init_state max10_config)) = 10
   \<and> counter (run (plain_config 0) twelve_forward_edges (init_state (plain_config 0))) = 12"
proof -
  have twelve: "counter (run (plain_config 0) twelve_forward_edges (init_state (plain_config 0))) = 12"
    by (simp add: example_defs max10_config_def forward_cycle_def twelve_forward_edges_def signal_defs tick_defs)
  have ten: "counter (run max10_config twelve_forward_edges (init_state max10_config)) = 10"
    by (simp add: example_defs max10_config_def forward_cycle_def twelve_forward_edges_def signal_defs tick_defs)
  show ?thesis
    using twelve ten
    by (auto intro: run_counter_within init_counter_within clamp_at_max clamp_at_min)
qed

theorem counter_bounds_witness:
  "min_value bounded_config = Some (- 5) \<and> max_value bounded_config = Some 10
   \<and> is_int32 (- 5) \<and> is_int32 10
   \<and> - 5 \<le> reset_value bounded_config \<and> reset_value bounded_config \<le> 10
   \<and> counter_within (- 5) 10 (run bounded_config twelve_forward_edges (init_state bounded_config))
   \<and> count_ena (example_state (False, True, False) (False, False, False) (False, False, False) 10)
   \<and> count_dir (example_state (False, True, False) (False, False, False) (False, False, False) 10)
   \<and> counter (tick bounded_config (pads False False False)
        (example_state (False, True, False) (False, False, False) (False, False, False) 10)) = 10
   \<and> count_ena (example_state (False, False, False) (False, True, False) (False, False, False) (- 5))
   \<and> \<not> count_dir (example_state (False, False, False) (False, True, False) (False, False, False) (- 5))
   \<and> counter (tick bounded_config (pads False False False)
        (example_state (False, False, False) (False, True, False) (False, False, False) (- 5))) = - 5"
  using counter_bounds
    [of bounded_config "- 5" 10 twelve_forward_edges
        "example_state (False, True, False) (False, False, False) (False, False, False) 10"
        "pads False False False"
        "example_state (False, False, False) (False, True, False) (False, False, False) (- 5)"]
  by (simp add: example_defs bounded_config_def forward_cycle_def twelve_forward_edges_def signal_defs is_int32_def)

section \<open>Global reset and a count edge on the same tick\<close>

text \<open>
  Claim C1 says that a tick with the global reset asserted and a count edge present
  ends with the counter at \<open>reset_value\<close>. The guard of the counting statement
  excludes only the reset by \<open>index_enable\<close>, not the global reset, and the counting
  statement comes after the reset statement, so its assignment wins. From power-up
  with \<open>reset_value = 0\<close>: line A rises, the tick that sees the edge has reset
  asserted, and the counter ends at 1. With the counter at 33 the same tick ends at
  34: the reset is lost.
\<close>

theorem reset_loses_to_count_edge:
  "count_ena (run (plain_config 0) a_rises (init_state (plain_config 0)))
   \<and> counter (run (plain_config 0) a_rises (init_state (plain_config 0))) = 0
   \<and> counter (run (plain_config 0) (a_rises @ [Clock (pads_reset True False False)])
        (init_state (plain_config 0))) = 1
   \<and> count_ena (example_state (False, True, False) (False, False, False) (False, False, False) 33)
   \<and> counter (tick (plain_config 0) (pads_reset False False False)
        (example_state (False, True, False) (False, False, False) (False, False, False) 33)) = 34"
  by (simp add: example_defs a_rises_def signal_defs tick_defs)

section \<open>The index pulse and its acknowledgement\<close>

text \<open>
  Claim C2 says that once an acknowledgement has met a pending pulse, repeating the
  acknowledgement without a new rising flank leaves \<open>index_pulse\<close> false. The
  acknowledgement writes \<open>reset_value\<close> into \<open>index_pulse\<close>. With \<open>reset_value = 1\<close>: Z rises
  and stays high, the pulse is set, the host acknowledges, and the pulse is still
  set after that tick; the host acknowledges again, no rising flank is in the Z
  history, and the pulse is set after that tick too.
\<close>

theorem acknowledgement_with_odd_reset_value:
  "index_pulse (run (plain_config 1) z_rises (init_state (plain_config 1)))
   \<and> index_pulse (run (plain_config 1)
        (z_rises @ [Host_reset_index_pulse True, Clock (pads False False True)])
        (init_state (plain_config 1)))
   \<and> \<not> index_rising (run (plain_config 1)
        (z_rises @ [Host_reset_index_pulse True, Clock (pads False False True),
                    Host_reset_index_pulse True])
        (init_state (plain_config 1)))
   \<and> index_pulse (run (plain_config 1)
        (z_rises @ [Host_reset_index_pulse True, Clock (pads False False True),
                    Host_reset_index_pulse True, Clock (pads False False True)])
        (init_state (plain_config 1)))"
  by (simp add: example_defs z_rises_def signal_defs tick_defs)




text \<open>
  Claim C4 says that a tick with a rising flank of Z always ends with \<open>index_pulse\<close>
  set. The acknowledgement statement comes after the statement that sets the pulse,
  so when both fire the acknowledgement wins. With \<open>reset_value = 0\<close>: a first pulse is
  pending, Z falls and rises again, the host acknowledges the first pulse on the
  tick that sees the second flank, and that tick ends with \<open>index_pulse\<close> clear.
\<close>

theorem new_edge_swallowed_counterexample:
  "index_rising (run (plain_config 0) second_z_edge (init_state (plain_config 0)))
   \<and> reset_index_pulse (run (plain_config 0) second_z_edge (init_state (plain_config 0)))
   \<and> index_pulse (run (plain_config 0) second_z_edge (init_state (plain_config 0)))
   \<and> \<not> index_pulse (run (plain_config 0) (second_z_edge @ [Clock (pads False False True)])
        (init_state (plain_config 0)))"
  by (simp add: example_defs z_rises_def second_z_edge_def signal_defs tick_defs)

text \<open>
  Claim C4, amended. A tick with a rising flank of Z ends with \<open>index_pulse\<close> set,
  unless \<open>reset_index_pulse\<close> and \<open>index_pulse\<close> were both set at its start.
\<close>

theorem index_edge_sets_pulse:
  "index_rising s \<and> \<not> (reset_index_pulse s \<and> index_pulse s) \<longrightarrow>
     index_pulse (tick cfg inp s)"
  by (auto simp: tick_defs split: option.splits)

theorem index_edge_sets_pulse_witness:
  "index_rising (example_state (False, False, False) (False, False, False) (False, True, False) 0)
   \<and> \<not> (reset_index_pulse
          (example_state (False, False, False) (False, False, False) (False, True, False) 0)
        \<and> index_pulse
          (example_state (False, False, False) (False, False, False) (False, True, False) 0))
   \<and> index_pulse (tick (plain_config 0) (pads False False True)
        (example_state (False, False, False) (False, False, False) (False, True, False) 0))"
  using index_edge_sets_pulse
    [of "example_state (False, False, False) (False, False, False) (False, True, False) 0"
        "plain_config 0" "pads False False True"]
  by (simp add: example_defs signal_defs)

text \<open>
  Claim C10. On a tick that starts with \<open>reset_index_pulse\<close> and \<open>index_pulse\<close> both set,
  the acknowledgement assigns \<open>reset_value\<close> to the 1-bit \<open>index_pulse\<close>: at the end of the
  tick \<open>index_pulse\<close> is the lowest bit of \<open>reset_value\<close>, so it is clear exactly when
  \<open>reset_value\<close> is even, and \<open>reset_index_pulse\<close> is clear in every case. This holds
  with and without a rising flank of Z on the same tick.
\<close>

theorem acknowledgement_writes_reset_value:
  "reset_index_pulse s \<and> index_pulse s \<longrightarrow>
     index_pulse (tick cfg inp s) = odd (reset_value cfg)
     \<and> (\<not> index_pulse (tick cfg inp s)) = even (reset_value cfg)
     \<and> \<not> reset_index_pulse (tick cfg inp s)"
  by (auto simp: tick_defs split: option.splits)

theorem acknowledgement_writes_reset_value_witness:
  "reset_index_pulse (run (plain_config 5) (z_rises @ [Host_reset_index_pulse True])
      (init_state (plain_config 5)))
   \<and> index_pulse (run (plain_config 5) (z_rises @ [Host_reset_index_pulse True])
      (init_state (plain_config 5)))
   \<and> odd (reset_value (plain_config 5))
   \<and> index_pulse (tick (plain_config 5) (pads False False True)
        (run (plain_config 5) (z_rises @ [Host_reset_index_pulse True])
           (init_state (plain_config 5))))
   \<and> \<not> reset_index_pulse (tick (plain_config 5) (pads False False True)
        (run (plain_config 5) (z_rises @ [Host_reset_index_pulse True])
           (init_state (plain_config 5))))"
  using acknowledgement_writes_reset_value
    [of "run (plain_config 5) (z_rises @ [Host_reset_index_pulse True])
           (init_state (plain_config 5))" "plain_config 5" "pads False False True"]
  by (simp add: example_defs z_rises_def signal_defs tick_defs)

section \<open>The decoder\<close>

text \<open>
  Claim C6 says that edges on both A and B between the two samples still give one
  count event. The exclusive or of the two changes is false when both lines
  changed: after A and B rise on the same tick, \<open>count_ena\<close> is false on the tick
  that sees the two edges and the counter stays at 0.
\<close>

theorem double_edge_counterexample:
  "bit1 (pin_A_delayed (run (plain_config 0) both_rise (init_state (plain_config 0))))
     \<noteq> bit2 (pin_A_delayed (run (plain_config 0) both_rise (init_state (plain_config 0))))
   \<and> bit1 (pin_B_delayed (run (plain_config 0) both_rise (init_state (plain_config 0))))
     \<noteq> bit2 (pin_B_delayed (run (plain_config 0) both_rise (init_state (plain_config 0))))
   \<and> \<not> count_ena (run (plain_config 0) both_rise (init_state (plain_config 0)))
   \<and> counter (run (plain_config 0) both_rise (init_state (plain_config 0))) = 0
   \<and> counter (run (plain_config 0) (both_rise @ [Clock (pads True True False)])
        (init_state (plain_config 0))) = 0"
  by (simp add: example_defs both_rise_def signal_defs tick_defs)

text \<open>
  Claim C6, amended. \<open>count_ena\<close> is \<open>a1 XOR a2 XOR b1 XOR b2\<close>, which is true exactly
  when one of the two lines changed between the samples and the other did not, and
  \<open>count_dir\<close> is \<open>a1 XOR b2\<close>. Edges on both lines between the two samples give no count
  event. On a tick without a reset, the counter takes the counting-up statement
  when \<open>count_ena\<close> and \<open>count_dir\<close> hold, the counting-down statement when
  \<open>count_ena\<close> holds and \<open>count_dir\<close> does not, and keeps its value otherwise.
\<close>

theorem decoder_table:
  "count_ena s =
     ((bit1 (pin_A_delayed s) \<noteq> bit2 (pin_A_delayed s))
        \<noteq> (bit1 (pin_B_delayed s) \<noteq> bit2 (pin_B_delayed s)))
   \<and> count_dir s = (bit1 (pin_A_delayed s) \<noteq> bit2 (pin_B_delayed s))
   \<and> (bit1 (pin_A_delayed s) \<noteq> bit2 (pin_A_delayed s)
        \<and> bit1 (pin_B_delayed s) \<noteq> bit2 (pin_B_delayed s) \<longrightarrow> \<not> count_ena s)
   \<and> (\<not> reset inp \<and> \<not> (index_enable s \<and> index_rising s) \<longrightarrow>
        counter (tick cfg inp s) =
          (if count_ena s
           then (if count_dir s
                 then counter (create_counter_increase cfg s s)
                 else counter (create_counter_decrease cfg s s))
           else counter s))"
  by (auto simp: tick_defs signal_defs split: option.splits)

theorem decoder_table_witness:
  "bit1 (pin_A_delayed (example_state (False, True, False) (False, True, False) (False, False, False) 7))
     \<noteq> bit2 (pin_A_delayed (example_state (False, True, False) (False, True, False) (False, False, False) 7))
   \<and> bit1 (pin_B_delayed (example_state (False, True, False) (False, True, False) (False, False, False) 7))
     \<noteq> bit2 (pin_B_delayed (example_state (False, True, False) (False, True, False) (False, False, False) 7))
   \<and> \<not> reset (pads False False False)
   \<and> \<not> (index_enable (example_state (False, True, False) (False, True, False) (False, False, False) 7)
        \<and> index_rising (example_state (False, True, False) (False, True, False) (False, False, False) 7))
   \<and> \<not> count_ena (example_state (False, True, False) (False, True, False) (False, False, False) 7)
   \<and> counter (tick (plain_config 0) (pads False False False)
        (example_state (False, True, False) (False, True, False) (False, False, False) 7)) = 7"
  using decoder_table
    [of "example_state (False, True, False) (False, True, False) (False, False, False) 7"
        "pads False False False" "plain_config 0"]
  by (simp add: example_defs signal_defs)

section \<open>Reset on two consecutive ticks\<close>

text \<open>
  Claim C9 says that two ticks with reset asserted end in the same state as one tick
  with reset followed by one tick without, the pads being the same in both runs.
  From power-up with \<open>reset_value = 0\<close>, line A rises and is held. The first tick with
  reset sees the count edge, and the count wins over the reset: the counter is 1
  after it. The second tick sees no edge: with reset it puts the counter to 0,
  without reset it leaves it at 1.
\<close>

theorem reset_twice_differs:
  "count_ena (run (plain_config 0) a_rises (init_state (plain_config 0)))
   \<and> counter (run (plain_config 0)
        (a_rises @ [Clock (pads_reset True False False), Clock (pads_reset True False False)])
        (init_state (plain_config 0))) = 0
   \<and> counter (run (plain_config 0)
        (a_rises @ [Clock (pads_reset True False False), Clock (pads True False False)])
        (init_state (plain_config 0))) = 1"
  by (simp add: example_defs a_rises_def signal_defs tick_defs)

section \<open>The packed flag registers\<close>

text \<open>
  Claim C8 says that in each of the three packed registers all bits from N upward
  read zero. The storage of \<^verbatim>\<open>encoder_index_enable\<close> and of \<^verbatim>\<open>encoder_reset_index_pulse\<close> is
  an input of the circuit: no statement of the sources assigns to it or masks it.
  With 40 instances \<^verbatim>\<open>encoder_index_enable\<close> is created with 64 bits. A value of that
  register with bits 40 and 63 set is taken by the circuit as it is: encoder 7 loads
  its flag from bit 7, and every encoder ends the tick as with the bits from 40
  upward clear.
\<close>

theorem writable_bits_counterexample:
  "register_size (add_mmio_write_registers (Some (replicate 40 (plain_config 0))))
       Encoder_index_enable
     = Some (length (encoder_index_enable_storage all_enabled))
   \<and> encoder_index_enable_storage all_enabled ! 40
   \<and> encoder_index_enable_storage all_enabled ! 63
   \<and> index_enable (encoder (soc_sync all_enabled (replicate 40 (plain_config 0))
        (replicate 40 (pads False False False)) (replicate 40 (soc_init (plain_config 0))) ! 7))
   \<and> soc_sync all_enabled (replicate 40 (plain_config 0))
        (replicate 40 (pads False False False)) (replicate 40 (soc_init (plain_config 0)))
      = soc_sync forty_enabled (replicate 40 (plain_config 0))
        (replicate 40 (pads False False False)) (replicate 40 (soc_init (plain_config 0)))"
proof -
  have size: "register_size (add_mmio_write_registers (Some (replicate 40 (plain_config 0))))
       Encoder_index_enable
     = Some (length (encoder_index_enable_storage all_enabled))"
    by (simp add: register_size_def add_mmio_write_registers_def csr_size_eq all_enabled_def)
  have bits: "encoder_index_enable_storage all_enabled ! 40"
    "encoder_index_enable_storage all_enabled ! 63"
    by (simp_all add: all_enabled_def)
  have seven: "index_enable (encoder (soc_sync all_enabled (replicate 40 (plain_config 0))
        (replicate 40 (pads False False False)) (replicate 40 (soc_init (plain_config 0))) ! 7))"
    by (simp add: nth_soc_sync soc_sync_encoder_flags all_enabled_def soc_init_def
        example_defs signal_defs)
  have same: "soc_sync all_enabled (replicate 40 (plain_config 0))
        (replicate 40 (pads False False False)) (replicate 40 (soc_init (plain_config 0)))
      = soc_sync forty_enabled (replicate 40 (plain_config 0))
        (replicate 40 (pads False False False)) (replicate 40 (soc_init (plain_config 0)))"
    by (rule soc_sync_low_bits) (simp_all add: all_enabled_def forty_enabled_def)
  show ?thesis using size bits seven same by simp
qed

text \<open>
  Claim C8, amended. For \<open>N \<ge> 1\<close> instances each of the three packed registers is
  created with \<^verbatim>\<open>ceil(N / 32) * 32\<close> bits, the least multiple of 32 that is at least N.
  Bit \<open>i\<close> of the \<^verbatim>\<open>encoder_index_pulse\<close> status is the \<open>index_pulse\<close> flag of instance \<open>i\<close> (for
  an instance without a Z pin the constant 0, which is its flag after any events from
  power-up), and the bits of the status from N upward are zero. On every tick
  instance \<open>i\<close> loads its \<open>index_enable\<close> and \<open>reset_index_pulse\<close> flags from bit \<open>i\<close> of the two
  host-writable registers, unless the module clears the flag on that tick. The bits
  of these two registers from N upward are read by no instance: two register values
  that agree below N leave all encoders in the same state.
\<close>

theorem packed_registers:
  "instances \<noteq> [] \<and> length ess = length instances
   \<and> length pads_ins = length instances \<and> length encoders = length instances
   \<and> register_size (add_mmio_write_registers (Some instances)) Encoder_index_enable
       = Some (length (encoder_index_enable_storage mmio))
   \<and> register_size (add_mmio_write_registers (Some instances)) Encoder_reset_index_pulse
       = Some (length (encoder_reset_index_pulse_storage mmio))
   \<longrightarrow>
     register_size (add_mmio_read_registers (Some instances)) Encoder_index_pulse
       = Some (csr_size (length instances))
     \<and> length (encoder_index_enable_storage mmio) = csr_size (length instances)
     \<and> length (encoder_reset_index_pulse_storage mmio) = csr_size (length instances)
     \<and> 32 dvd csr_size (length instances)
     \<and> length instances \<le> csr_size (length instances)
     \<and> csr_size (length instances) < length instances + 32
     \<and> length (encoder_index_pulse_status instances (encoders_after instances ess))
       = csr_size (length instances)
     \<and> length (encoder_index_pulse_status instances (map encoder encoders))
       = csr_size (length instances)
     \<and> (\<forall>i. i < length instances \<longrightarrow>
          encoder_index_pulse_status instances (encoders_after instances ess) ! i
            = index_pulse (encoders_after instances ess ! i)
          \<and> encoder_index_pulse_status instances (map encoder encoders) ! i
            = (has_Encoder_Z (instances ! i) \<and> index_pulse (encoder (encoders ! i)))
          \<and> i < length (encoder_index_enable_storage mmio)
          \<and> i < length (encoder_reset_index_pulse_storage mmio)
          \<and> soc_sync mmio instances pads_ins encoders ! i
            = soc_sync_encoder mmio i (instances ! i) (pads_ins ! i) (encoders ! i)
          \<and> index_enable (encoder (soc_sync mmio instances pads_ins encoders ! i))
            = (encoder_index_enable_storage mmio ! i
               \<and> \<not> (encoder_reset (encoders ! i)
                    \<or> (index_enable (encoder (encoders ! i))
                        \<and> index_rising (encoder (encoders ! i)))))
          \<and> reset_index_pulse (encoder (soc_sync mmio instances pads_ins encoders ! i))
            = (encoder_reset_index_pulse_storage mmio ! i
               \<and> \<not> (reset_index_pulse (encoder (encoders ! i))
                    \<and> index_pulse (encoder (encoders ! i)))))
     \<and> (\<forall>i. length instances \<le> i \<and> i < csr_size (length instances) \<longrightarrow>
          \<not> encoder_index_pulse_status instances (encoders_after instances ess) ! i
          \<and> \<not> encoder_index_pulse_status instances (map encoder encoders) ! i)
     \<and> (reset_storage mmio2 = reset_storage mmio
         \<and> take (length instances) (encoder_index_enable_storage mmio2)
           = take (length instances) (encoder_index_enable_storage mmio)
         \<and> take (length instances) (encoder_reset_index_pulse_storage mmio2)
           = take (length instances) (encoder_reset_index_pulse_storage mmio)
         \<longrightarrow> soc_sync mmio2 instances pads_ins encoders
             = soc_sync mmio instances pads_ins encoders)"
proof (intro impI)
  let ?n = "length instances"
  assume h: "instances \<noteq> [] \<and> length ess = ?n \<and> length pads_ins = ?n \<and> length encoders = ?n
    \<and> register_size (add_mmio_write_registers (Some instances)) Encoder_index_enable
        = Some (length (encoder_index_enable_storage mmio))
    \<and> register_size (add_mmio_write_registers (Some instances)) Encoder_reset_index_pulse
        = Some (length (encoder_reset_index_pulse_storage mmio))"
  then have ne: "instances \<noteq> []" and less: "length ess = ?n"
    and lp: "length pads_ins = ?n" and le: "length encoders = ?n"
    by simp_all
  have b: "?n \<le> csr_size ?n" "csr_size ?n < ?n + 32" "32 dvd csr_size ?n"
    using csr_size_bounds [of ?n] by simp_all
  have lie: "length (encoder_index_enable_storage mmio) = csr_size ?n"
    and lrip: "length (encoder_reset_index_pulse_storage mmio) = csr_size ?n"
    using h register_size_write [OF ne] by simp_all
  have rd: "register_size (add_mmio_read_registers (Some instances)) Encoder_index_pulse
            = Some (csr_size ?n)"
    using register_size_read [OF ne] .
  have len1: "length (encoder_index_pulse_status instances (encoders_after instances ess))
              = csr_size ?n"
    and len2: "length (encoder_index_pulse_status instances (map encoder encoders)) = csr_size ?n"
    by (simp_all add: encoder_index_pulse_status_def length_assign_bits)
  have low: "encoder_index_pulse_status instances (encoders_after instances ess) ! i
            = index_pulse (encoders_after instances ess ! i)
          \<and> encoder_index_pulse_status instances (map encoder encoders) ! i
            = (has_Encoder_Z (instances ! i) \<and> index_pulse (encoder (encoders ! i)))
          \<and> i < length (encoder_index_enable_storage mmio)
          \<and> i < length (encoder_reset_index_pulse_storage mmio)
          \<and> soc_sync mmio instances pads_ins encoders ! i
            = soc_sync_encoder mmio i (instances ! i) (pads_ins ! i) (encoders ! i)
          \<and> index_enable (encoder (soc_sync mmio instances pads_ins encoders ! i))
            = (encoder_index_enable_storage mmio ! i
               \<and> \<not> (encoder_reset (encoders ! i)
                    \<or> (index_enable (encoder (encoders ! i))
                        \<and> index_rising (encoder (encoders ! i)))))
          \<and> reset_index_pulse (encoder (soc_sync mmio instances pads_ins encoders ! i))
            = (encoder_reset_index_pulse_storage mmio ! i
               \<and> \<not> (reset_index_pulse (encoder (encoders ! i))
                    \<and> index_pulse (encoder (encoders ! i))))"
    if i: "i < ?n" for i
  proof -
    have "encoder_index_pulse_status instances (encoders_after instances ess) ! i
            = index_pulse (encoders_after instances ess ! i)"
      using i less b(1)
      by (simp add: encoder_index_pulse_status_def nth_assign_bits_low
          length_index_pulse_list nth_index_pulse_list)
    moreover have "encoder_index_pulse_status instances (map encoder encoders) ! i
            = (has_Encoder_Z (instances ! i) \<and> index_pulse (encoder (encoders ! i)))"
      using i le nth_status_any [of i instances "map encoder encoders"] by simp
    moreover have "i < length (encoder_index_enable_storage mmio)"
      "i < length (encoder_reset_index_pulse_storage mmio)"
      using i b(1) lie lrip by simp_all
    moreover have "soc_sync mmio instances pads_ins encoders ! i
            = soc_sync_encoder mmio i (instances ! i) (pads_ins ! i) (encoders ! i)"
      using i lp le by (rule nth_soc_sync)
    ultimately show ?thesis by (simp add: soc_sync_encoder_flags)
  qed
  have high: "\<not> encoder_index_pulse_status instances (encoders_after instances ess) ! i
          \<and> \<not> encoder_index_pulse_status instances (map encoder encoders) ! i"
    if "?n \<le> i \<and> i < csr_size ?n" for i
  proof -
    have l1: "length (index_pulse_list instances (encoders_after instances ess)) = ?n"
      using less by (simp add: length_index_pulse_list)
    have l2: "length (index_pulse_list instances (map encoder encoders)) = ?n"
      using le by (simp add: index_pulse_list_def)
    show ?thesis
      using that l1 l2 by (simp add: encoder_index_pulse_status_def nth_assign_bits_high)
  qed
  have ind: "soc_sync mmio2 instances pads_ins encoders = soc_sync mmio instances pads_ins encoders"
    if "reset_storage mmio2 = reset_storage mmio
         \<and> take ?n (encoder_index_enable_storage mmio2) = take ?n (encoder_index_enable_storage mmio)
         \<and> take ?n (encoder_reset_index_pulse_storage mmio2)
           = take ?n (encoder_reset_index_pulse_storage mmio)"
    using that lp le by (intro soc_sync_low_bits) simp_all
  show "register_size (add_mmio_read_registers (Some instances)) Encoder_index_pulse
       = Some (csr_size ?n)
     \<and> length (encoder_index_enable_storage mmio) = csr_size ?n
     \<and> length (encoder_reset_index_pulse_storage mmio) = csr_size ?n
     \<and> 32 dvd csr_size ?n
     \<and> ?n \<le> csr_size ?n
     \<and> csr_size ?n < ?n + 32
     \<and> length (encoder_index_pulse_status instances (encoders_after instances ess))
       = csr_size ?n
     \<and> length (encoder_index_pulse_status instances (map encoder encoders))
       = csr_size ?n
     \<and> (\<forall>i. i < ?n \<longrightarrow>
          encoder_index_pulse_status instances (encoders_after instances ess) ! i
            = index_pulse (encoders_after instances ess ! i)
          \<and> encoder_index_pulse_status instances (map encoder encoders) ! i
            = (has_Encoder_Z (instances ! i) \<and> index_pulse (encoder (encoders ! i)))
          \<and> i < length (encoder_index_enable_storage mmio)
          \<and> i < length (encoder_reset_index_pulse_storage mmio)
          \<and> soc_sync mmio instances pads_ins encoders ! i
            = soc_sync_encoder mmio i (instances ! i) (pads_ins ! i) (encoders ! i)
          \<and> index_enable (encoder (soc_sync mmio instances pads_ins encoders ! i))
            = (encoder_index_enable_storage mmio ! i
               \<and> \<not> (encoder_reset (encoders ! i)
                    \<or> (index_enable (encoder (encoders ! i))
                        \<and> index_rising (encoder (encoders ! i)))))
          \<and> reset_index_pulse (encoder (soc_sync mmio instances pads_ins encoders ! i))
            = (encoder_reset_index_pulse_storage mmio ! i
               \<and> \<not> (reset_index_pulse (encoder (encoders ! i))
                    \<and> index_pulse (encoder (encoders ! i)))))
     \<and> (\<forall>i. ?n \<le> i \<and> i < csr_size ?n \<longrightarrow>
          \<not> encoder_index_pulse_status instances (encoders_after instances ess) ! i
          \<and> \<not> encoder_index_pulse_status instances (map encoder encoders) ! i)
     \<and> (reset_storage mmio2 = reset_storage mmio
         \<and> take ?n (encoder_index_enable_storage mmio2)
           = take ?n (encoder_index_enable_storage mmio)
         \<and> take ?n (encoder_reset_index_pulse_storage mmio2)
           = take ?n (encoder_reset_index_pulse_storage mmio)
         \<longrightarrow> soc_sync mmio2 instances pads_ins encoders
             = soc_sync mmio instances pads_ins encoders)"
    using rd lie lrip b len1 len2 low high ind by blast
qed

text \<open>
  Forty instances with 64-bit registers. After a rising flank of Z bit 7 of the
  status is set and bits 40 and 63 are clear; from power-up, encoder 7 loads
  \<open>index_enable\<close> from bit 7 of the host's register; the register value with all 64
  bits set and the one with the first 40 set leave the encoders in the same state.
\<close>

theorem packed_registers_witness:
  "replicate 40 (plain_config 0) \<noteq> []
   \<and> length (replicate 40 z_rises) = length (replicate 40 (plain_config 0))
   \<and> length (replicate 40 (pads False False False)) = length (replicate 40 (plain_config 0))
   \<and> length (replicate 40 (soc_init (plain_config 0))) = length (replicate 40 (plain_config 0))
   \<and> register_size (add_mmio_write_registers (Some (replicate 40 (plain_config 0))))
       Encoder_index_enable = Some (length (encoder_index_enable_storage forty_enabled))
   \<and> register_size (add_mmio_write_registers (Some (replicate 40 (plain_config 0))))
       Encoder_reset_index_pulse
     = Some (length (encoder_reset_index_pulse_storage forty_enabled))
   \<and> register_size (add_mmio_read_registers (Some (replicate 40 (plain_config 0))))
       Encoder_index_pulse = Some 64
   \<and> length (encoder_index_enable_storage forty_enabled) = 64
   \<and> length (encoder_reset_index_pulse_storage forty_enabled) = 64
   \<and> length (encoder_index_pulse_status (replicate 40 (plain_config 0))
       (encoders_after (replicate 40 (plain_config 0)) (replicate 40 z_rises))) = 64
   \<and> encoder_index_pulse_status (replicate 40 (plain_config 0))
       (encoders_after (replicate 40 (plain_config 0)) (replicate 40 z_rises)) ! 7
   \<and> \<not> encoder_index_pulse_status (replicate 40 (plain_config 0))
       (encoders_after (replicate 40 (plain_config 0)) (replicate 40 z_rises)) ! 40
   \<and> \<not> encoder_index_pulse_status (replicate 40 (plain_config 0))
       (encoders_after (replicate 40 (plain_config 0)) (replicate 40 z_rises)) ! 63
   \<and> index_enable (encoder (soc_sync forty_enabled (replicate 40 (plain_config 0))
        (replicate 40 (pads False False False)) (replicate 40 (soc_init (plain_config 0))) ! 7))
   \<and> \<not> reset_index_pulse (encoder (soc_sync forty_enabled (replicate 40 (plain_config 0))
        (replicate 40 (pads False False False)) (replicate 40 (soc_init (plain_config 0))) ! 7))
   \<and> reset_storage all_enabled = reset_storage forty_enabled
   \<and> take 40 (encoder_index_enable_storage all_enabled)
     = take 40 (encoder_index_enable_storage forty_enabled)
   \<and> take 40 (encoder_reset_index_pulse_storage all_enabled)
     = take 40 (encoder_reset_index_pulse_storage forty_enabled)
   \<and> soc_sync all_enabled (replicate 40 (plain_config 0))
        (replicate 40 (pads False False False)) (replicate 40 (soc_init (plain_config 0)))
      = soc_sync forty_enabled (replicate 40 (plain_config 0))
        (replicate 40 (pads False False False)) (replicate 40 (soc_init (plain_config 0)))"
proof -
  let ?instances = "replicate 40 (plain_config 0)"
  let ?ess = "replicate 40 z_rises"
  let ?pads = "replicate 40 (pads False False False)"
  let ?encoders = "replicate 40 (soc_init (plain_config 0))"
  have hyp: "?instances \<noteq> [] \<and> length ?ess = length ?instances
     \<and> length ?pads = length ?instances \<and> length ?encoders = length ?instances
     \<and> register_size (add_mmio_write_registers (Some ?instances)) Encoder_index_enable
         = Some (length (encoder_index_enable_storage forty_enabled))
     \<and> register_size (add_mmio_write_registers (Some ?instances)) Encoder_reset_index_pulse
         = Some (length (encoder_reset_index_pulse_storage forty_enabled))"
    by (simp add: register_size_def add_mmio_write_registers_def csr_size_eq forty_enabled_def)
  note facts = mp [OF packed_registers
    [of ?instances ?ess ?pads ?encoders forty_enabled all_enabled] hyp]
  note rest = facts [THEN conjunct2, THEN conjunct2, THEN conjunct2, THEN conjunct2,
    THEN conjunct2, THEN conjunct2, THEN conjunct2, THEN conjunct2]
  note at7 = spec [of _ 7, OF rest [THEN conjunct1]]
  note at40 = spec [of _ 40, OF rest [THEN conjunct2, THEN conjunct1]]
  note at63 = spec [of _ 63, OF rest [THEN conjunct2, THEN conjunct1]]
  note ind = rest [THEN conjunct2, THEN conjunct2]
  have pulse: "index_pulse (encoders_after ?instances ?ess ! 7)"
    by (simp add: encoders_after_def example_defs z_rises_def signal_defs tick_defs)
  have flags: "encoder_index_enable_storage forty_enabled ! 7"
    "\<not> encoder_reset_index_pulse_storage forty_enabled ! 7"
    "\<not> encoder_reset (?encoders ! 7)"
    "\<not> index_enable (encoder (?encoders ! 7))"
    by (simp_all add: forty_enabled_def soc_init_def init_state_def nth_append)
  have low: "reset_storage all_enabled = reset_storage forty_enabled
     \<and> take 40 (encoder_index_enable_storage all_enabled)
       = take 40 (encoder_index_enable_storage forty_enabled)
     \<and> take 40 (encoder_reset_index_pulse_storage all_enabled)
       = take 40 (encoder_reset_index_pulse_storage forty_enabled)"
    by (simp add: all_enabled_def forty_enabled_def)
  show ?thesis
    using hyp facts at7 at40 at63 ind pulse flags low by (simp add: csr_size_eq)
qed

end
